theory Spec2Isabelle
  imports Complex_Main "HOL-Library.AList"
begin

section \<open>Python values\<close>

text \<open>
  The service handles JSON-shaped Python values: the request bodies, the staged
  dictionaries and the response. A Python \<open>dict\<close> with string keys is an association
  list in insertion order; \<open>d[k] = v\<close> is \<open>AList.update\<close>, \<open>d.get(k)\<close> is
  \<open>map_of\<close> and \<open>del d[k]\<close> / \<open>d.pop(k, None)\<close> is \<open>AList.delete\<close>.

  A Python \<open>float\<close> is modelled by the rational it denotes. The only float
  arithmetic of the program is the difference of two readings of \<open>time.time()\<close>; for
  epoch readings \<open>a\<close> and \<open>b\<close> with \<open>b / 2 \<le> a \<le> 2 * b\<close> that difference is
  computed without rounding, so the rational difference is the value the program sees.
\<close>

datatype pyval =
    PNone
  | PBool bool
  | PInt int
  | PFloat rat
  | PStr string
  | PList "pyval list"
  | PDict "(string \<times> pyval) list"

type_synonym pydict = "(string \<times> pyval) list"

datatype exn = TypeError | DataError | ConnectionError | HTTPException nat

text \<open>Truth value of a Python object, as \<open>if x:\<close> and \<open>x or y\<close> test it.\<close>

fun truthy :: "pyval \<Rightarrow> bool" where
  "truthy PNone = False"
| "truthy (PBool b) = b"
| "truthy (PInt i) = (i \<noteq> 0)"
| "truthy (PFloat r) = (r \<noteq> 0)"
| "truthy (PStr s) = (s \<noteq> [])"
| "truthy (PList xs) = (xs \<noteq> [])"
| "truthy (PDict d) = (d \<noteq> [])"

text \<open>\<open>x or y\<close>\<close>

definition py_or :: "pyval \<Rightarrow> pyval \<Rightarrow> pyval" where
  "py_or x y = (if truthy x then x else y)"

text \<open>\<open>d.get(k)\<close> and \<open>d.get(k, default)\<close> on a dict with string keys.\<close>

definition dict_get :: "pydict \<Rightarrow> string \<Rightarrow> pyval" where
  "dict_get d k = (case map_of d k of Some v \<Rightarrow> v | None \<Rightarrow> PNone)"

definition dict_get_default :: "pydict \<Rightarrow> string \<Rightarrow> pyval \<Rightarrow> pyval" where
  "dict_get_default d k dflt = (case map_of d k of Some v \<Rightarrow> v | None \<Rightarrow> dflt)"

text \<open>\<open>d.update(other)\<close>: the entries of \<open>other\<close> are assigned in order.\<close>

definition dict_update :: "pydict \<Rightarrow> pydict \<Rightarrow> pydict" where
  "dict_update d other = fold (\<lambda>(k, v). AList.update k v) other d"

text \<open>
  \<open>a - b\<close> with \<open>a\<close> a float: defined when \<open>b\<close> is a number (a \<open>bool\<close> is an
  \<open>int\<close> in Python), a \<open>TypeError\<close> otherwise.
\<close>

fun float_sub :: "rat \<Rightarrow> pyval \<Rightarrow> exn + rat" where
  "float_sub a (PFloat b) = Inr (a - b)"
| "float_sub a (PInt i) = Inr (a - of_int i)"
| "float_sub a (PBool b) = Inr (a - (if b then 1 else 0))"
| "float_sub a _ = Inl TypeError"

text \<open>
  Only hashable objects can be looked up in a dict: a list or a dict as key raises
  \<open>TypeError\<close>. The keys of the staging dict are strings, so any other hashable key is
  simply not found.
\<close>

fun store_lookup :: "(string \<times> 'v) list \<Rightarrow> pyval \<Rightarrow> exn + 'v option" where
  "store_lookup d (PStr s) = Inr (map_of d s)"
| "store_lookup d (PList xs) = Inl TypeError"
| "store_lookup d (PDict e) = Inl TypeError"
| "store_lookup d v = Inr None"

fun store_pop :: "(string \<times> 'v) list \<Rightarrow> pyval \<Rightarrow> exn + (string \<times> 'v) list" where
  "store_pop d (PStr s) = Inr (AList.delete s d)"
| "store_pop d (PList xs) = Inl TypeError"
| "store_pop d (PDict e) = Inl TypeError"
| "store_pop d v = Inr d"

section \<open>The Redis client\<close>

text \<open>
  The networked backend is the external Redis service, reached through the three client
  calls the program makes. The model keeps, per key, the JSON text written and the
  instant it expires; a call raises when the server cannot be reached. \<open>json.dumps\<close>
  followed by \<open>json.loads\<close> gives the dict back, so the text is kept as the dict it
  encodes.

  The client sends a key as text: a string as it is, an \<open>int\<close> or \<open>float\<close> as its
  \<open>repr\<close>; any other object (\<open>None\<close>, a \<open>bool\<close>, a list, a dict) raises
  \<open>DataError\<close>. The decimal text of a float is not modelled: it is a field of the client.
\<close>

datatype json_text = Json pydict

definition json_dumps :: "pydict \<Rightarrow> json_text" where
  "json_dumps d = Json d"

fun json_loads :: "json_text \<Rightarrow> pydict" where
  "json_loads (Json d) = d"

record Redis =
  reachable :: bool
  keyspace :: "(string \<times> json_text \<times> rat) list"
  float_repr :: "rat \<Rightarrow> string"

fun nat_repr :: "nat \<Rightarrow> string" where
  "nat_repr n =
     (if n < 10 then [char_of (48 + n)] else nat_repr (n div 10) @ [char_of (48 + n mod 10)])"

declare nat_repr.simps [simp del]

definition int_repr :: "int \<Rightarrow> string" where
  "int_repr i = (if i < 0 then CHR ''-'' # nat_repr (nat (- i)) else nat_repr (nat i))"

fun redis_encode :: "Redis \<Rightarrow> pyval \<Rightarrow> exn + string" where
  "redis_encode r (PStr s) = Inr s"
| "redis_encode r (PBool b) = Inl DataError"
| "redis_encode r (PInt i) = Inr (int_repr i)"
| "redis_encode r (PFloat x) = Inr (float_repr r x)"
| "redis_encode r v = Inl DataError"

text \<open>\<open>redis_client.setex(key, expiration, text)\<close>\<close>

definition redis_setex :: "Redis \<Rightarrow> string \<Rightarrow> int \<Rightarrow> json_text \<Rightarrow> rat \<Rightarrow> exn + Redis" where
  "redis_setex r key expiration txt now =
     (if \<not> reachable r then Inl ConnectionError
      else Inr (r\<lparr>keyspace := AList.update key (txt, now + of_int expiration) (keyspace r)\<rparr>))"

text \<open>\<open>redis_client.get(key)\<close>: an entry past its expiry instant is not seen.\<close>

definition redis_get :: "Redis \<Rightarrow> pyval \<Rightarrow> rat \<Rightarrow> exn + json_text option" where
  "redis_get r key now =
     (if \<not> reachable r then Inl ConnectionError
      else case redis_encode r key of
        Inl e \<Rightarrow> Inl e
      | Inr k \<Rightarrow>
          (case map_of (keyspace r) k of
             None \<Rightarrow> Inr None
           | Some (txt, expires) \<Rightarrow> if now > expires then Inr None else Inr (Some txt)))"

text \<open>\<open>redis_client.delete(key)\<close>\<close>

definition redis_delete :: "Redis \<Rightarrow> pyval \<Rightarrow> exn + Redis" where
  "redis_delete r key =
     (if \<not> reachable r then Inl ConnectionError
      else case redis_encode r key of
        Inl e \<Rightarrow> Inl e
      | Inr k \<Rightarrow> Inr (r\<lparr>keyspace := AList.delete k (keyspace r)\<rparr>))"

section \<open>Module state and the storage helpers\<close>

text \<open>
  The module keeps two globals: \<open>redis_client\<close>, set once at start-up (\<open>None\<close> when the
  connection test failed), and the fallback dict \<open>frontend_data_store\<close>. Every
  function takes the state and returns the new one next to its result; a result is
  \<open>Inl e\<close> when the call raises \<open>e\<close>. The readings of the clock are arguments.
\<close>

record state =
  redis_client :: "Redis option"
  frontend_data_store :: "(string \<times> pydict) list"

text \<open>\<open>try: ... except Exception: return v\<close>\<close>

fun except_return :: "(exn + 'a) \<times> state \<Rightarrow> 'a \<Rightarrow> (exn + 'a) \<times> state" where
  "except_return (Inl e, st) v = (Inr v, st)"
| "except_return (Inr x, st) v = (Inr x, st)"

text \<open>\<open>try: ... except Exception: raise HTTPException(status_code=500, ...)\<close>\<close>

fun except_raise_500 :: "(exn + 'a) \<times> state \<Rightarrow> (exn + 'a) \<times> state" where
  "except_raise_500 (Inl e, st) = (Inl (HTTPException 500), st)"
| "except_raise_500 (Inr x, st) = (Inr x, st)"

definition store_data_try :: "string \<Rightarrow> pydict \<Rightarrow> int \<Rightarrow> rat \<Rightarrow> state \<Rightarrow> (exn + bool) \<times> state" where
  "store_data_try key data expiration now st =
     (case redis_client st of
        Some r \<Rightarrow>
          (case redis_setex r key expiration (json_dumps data) now of
             Inl e \<Rightarrow> (Inl e, st)
           | Inr r' \<Rightarrow> (Inr True, st\<lparr>redis_client := Some r'\<rparr>))
      | None \<Rightarrow>
          (let data' = AList.update ''_timestamp'' (PFloat now) data
           in (Inr True, st\<lparr>frontend_data_store := AList.update key data' (frontend_data_store st)\<rparr>)))"

definition store_data :: "string \<Rightarrow> pydict \<Rightarrow> int \<Rightarrow> rat \<Rightarrow> state \<Rightarrow> (exn + bool) \<times> state" where
  "store_data key data expiration now st =
     except_return (store_data_try key data expiration now st) False"

definition get_data_try :: "pyval \<Rightarrow> rat \<Rightarrow> state \<Rightarrow> (exn + pydict option) \<times> state" where
  "get_data_try key now st =
     (case redis_client st of
        Some r \<Rightarrow>
          (case redis_get r key now of
             Inl e \<Rightarrow> (Inl e, st)
           | Inr None \<Rightarrow> (Inr None, st)
           | Inr (Some txt) \<Rightarrow> (Inr (Some (json_loads txt)), st))
      | None \<Rightarrow>
          (case store_lookup (frontend_data_store st) key of
             Inl e \<Rightarrow> (Inl e, st)
           | Inr None \<Rightarrow> (Inr None, st)
           | Inr (Some d) \<Rightarrow>
               if d = [] then (Inr (Some d), st)
               else (case float_sub now (dict_get_default d ''_timestamp'' (PInt 0)) of
                       Inl e \<Rightarrow> (Inl e, st)
                     | Inr age \<Rightarrow>
                         if age > 300 then
                           (case store_pop (frontend_data_store st) key of
                              Inl e \<Rightarrow> (Inl e, st)
                            | Inr store' \<Rightarrow> (Inr None, st\<lparr>frontend_data_store := store'\<rparr>))
                         else (Inr (Some d), st))))"

definition get_data :: "pyval \<Rightarrow> rat \<Rightarrow> state \<Rightarrow> (exn + pydict option) \<times> state" where
  "get_data key now st = except_return (get_data_try key now st) None"

definition delete_data_try :: "pyval \<Rightarrow> state \<Rightarrow> (exn + bool) \<times> state" where
  "delete_data_try key st =
     (case redis_client st of
        Some r \<Rightarrow>
          (case redis_delete r key of
             Inl e \<Rightarrow> (Inl e, st)
           | Inr r' \<Rightarrow> (Inr True, st\<lparr>redis_client := Some r'\<rparr>))
      | None \<Rightarrow>
          (case store_pop (frontend_data_store st) key of
             Inl e \<Rightarrow> (Inl e, st)
           | Inr store' \<Rightarrow> (Inr True, st\<lparr>frontend_data_store := store'\<rparr>)))"

definition delete_data :: "pyval \<Rightarrow> state \<Rightarrow> (exn + bool) \<times> state" where
  "delete_data key st = except_return (delete_data_try key st) False"

section \<open>Request models\<close>

record FrontendData =
  user_id :: string
  business_unit :: string
  device_info :: string
  custom_data :: "string option"
  timestamp :: rat

record AuthenticationContext =
  user :: pydict
  correlationId :: string
  client :: pydict
  protocol :: string
  clientServicePrincipal :: pydict
  resourceServicePrincipal :: pydict

record TokenIssuanceEventData =
  authenticationContext :: AuthenticationContext

record TokenIssuanceEvent =
  event_type :: string
  data :: TokenIssuanceEventData

record HTTPAuthorizationCredentials =
  scheme :: string
  credentials :: string

text \<open>An \<open>Optional[str]\<close> field as the Python value it holds.\<close>

fun optional_str :: "string option \<Rightarrow> pyval" where
  "optional_str None = PNone"
| "optional_str (Some s) = PStr s"

definition storage_type :: "state \<Rightarrow> pyval" where
  "storage_type st = PStr (if redis_client st \<noteq> None then ''redis'' else ''memory'')"

section \<open>The handlers\<close>

text \<open>
  \<open>POST /api/store-frontend-data\<close>. \<open>t_req\<close> is the clock read while the dict is
  built, \<open>t_put\<close> the instant of the write.
\<close>

definition data_to_store :: "FrontendData \<Rightarrow> rat \<Rightarrow> pydict" where
  "data_to_store frontend_data t_req =
     [(''business_unit'', PStr (business_unit frontend_data)),
      (''device_info'', PStr (device_info frontend_data)),
      (''custom_data'', optional_str (custom_data frontend_data)),
      (''timestamp'', PFloat t_req)]"

definition store_frontend_data_try ::
  "FrontendData \<Rightarrow> rat \<Rightarrow> rat \<Rightarrow> state \<Rightarrow> (exn + pydict) \<times> state" where
  "store_frontend_data_try frontend_data t_req t_put st =
     (case store_data (user_id frontend_data) (data_to_store frontend_data t_req) 300 t_put st of
           (Inl e, st') \<Rightarrow> (Inl e, st')
         | (Inr success, st') \<Rightarrow>
             if success then
               (Inr [(''success'', PBool True),
                     (''message'', PStr ''Data stored successfully''),
                     (''user_id'', PStr (user_id frontend_data)),
                     (''expires_in'', PInt 300),
                     (''storage_type'', storage_type st')], st')
             else (Inl (HTTPException 500), st'))"

definition store_frontend_data ::
  "FrontendData \<Rightarrow> rat \<Rightarrow> rat \<Rightarrow> state \<Rightarrow> (exn + pydict) \<times> state" where
  "store_frontend_data frontend_data t_req t_put st =
     except_raise_500 (store_frontend_data_try frontend_data t_req t_put st)"

text \<open>
  \<open>POST /api/custom-claims\<close>. \<open>t_get\<close> is the instant of the lookup, \<open>utcnow\<close> the
  text of \<open>datetime.utcnow().isoformat()\<close>, \<open>t_age\<close> and \<open>t_dflt\<close> the two clock
  reads of the \<open>dataAge\<close> expression, in evaluation order.
\<close>

definition user_id_of :: "TokenIssuanceEvent \<Rightarrow> pyval" where
  "user_id_of event =
     (let user_context = user (authenticationContext (data event))
      in py_or (dict_get user_context ''userPrincipalName'') (dict_get user_context ''id''))"

definition base_claims :: "TokenIssuanceEvent \<Rightarrow> string \<Rightarrow> state \<Rightarrow> pydict" where
  "base_claims event utcnow st =
     [(''apiVersion'', PStr ''1.0.0''),
      (''correlationId'', PStr (correlationId (authenticationContext (data event)))),
      (''timestamp'', PStr utcnow),
      (''source'', PStr ''custom-claims-provider''),
      (''storage_type'', storage_type st)]"

definition default_claims :: pydict where
  "default_claims =
     [(''businessUnit'', PStr ''Default''),
      (''deviceInfo'', PStr ''Server-Generated''),
      (''customData'', PStr ''No frontend data available''),
      (''dataSource'', PStr ''default'')]"

definition frontend_claims :: "pydict \<Rightarrow> rat \<Rightarrow> pydict" where
  "frontend_claims stored_data age =
     [(''businessUnit'', dict_get_default stored_data ''business_unit'' (PStr ''Unknown'')),
      (''deviceInfo'', dict_get_default stored_data ''device_info'' (PStr ''Unknown'')),
      (''customData'', dict_get_default stored_data ''custom_data'' (PStr [])),
      (''dataSource'', PStr ''frontend''),
      (''dataAge'', PFloat age)]"

definition response :: "pydict \<Rightarrow> pyval" where
  "response custom_claims =
     PDict [(''data'', PDict [(''actions'', PList [PDict
        [(''@odata.type'', PStr ''microsoft.graph.tokenIssuanceStart.provideClaimsForToken''),
         (''claims'', PDict custom_claims)]])])]"

definition custom_claims_provider_try ::
  "TokenIssuanceEvent \<Rightarrow> HTTPAuthorizationCredentials \<Rightarrow> rat \<Rightarrow> string \<Rightarrow> rat \<Rightarrow> rat \<Rightarrow> state
     \<Rightarrow> (exn + pyval) \<times> state" where
  "custom_claims_provider_try event creds t_get utcnow t_age t_dflt st =
     (let user_id = user_id_of event
      in case get_data user_id t_get st of
           (Inl e, st1) \<Rightarrow> (Inl e, st1)
         | (Inr stored, st1) \<Rightarrow>
             (let custom_claims = base_claims event utcnow st1;
                  no_data = (Inr (response (dict_update custom_claims default_claims)), st1)
              in case stored of
                   None \<Rightarrow> no_data
                 | Some stored_data \<Rightarrow>
                     if stored_data = [] then no_data
                     else
                       (case float_sub t_age
                               (dict_get_default stored_data ''timestamp'' (PFloat t_dflt)) of
                          Inl e \<Rightarrow> (Inl e, st1)
                        | Inr age \<Rightarrow>
                            (case delete_data user_id st1 of
                               (Inl e, st2) \<Rightarrow> (Inl e, st2)
                             | (Inr deleted, st2) \<Rightarrow>
                                 (Inr (response
                                    (dict_update custom_claims
                                       (frontend_claims stored_data age))), st2)))))"

definition custom_claims_provider ::
  "TokenIssuanceEvent \<Rightarrow> HTTPAuthorizationCredentials \<Rightarrow> rat \<Rightarrow> string \<Rightarrow> rat \<Rightarrow> rat \<Rightarrow> state
     \<Rightarrow> (exn + pyval) \<times> state" where
  "custom_claims_provider event creds t_get utcnow t_age t_dflt st =
     except_raise_500 (custom_claims_provider_try event creds t_get utcnow t_age t_dflt st)"

section \<open>Predicates on states\<close>

text \<open>The active backend answers: the fallback dict always, Redis when it is reachable.\<close>

definition backend_up :: "state \<Rightarrow> bool" where
  "backend_up st = (case redis_client st of None \<Rightarrow> True | Some r \<Rightarrow> reachable r)"

text \<open>The active backend holds an entry under the key \<open>uid\<close>.\<close>

definition staged :: "state \<Rightarrow> string \<Rightarrow> bool" where
  "staged st uid =
     (case redis_client st of
        None \<Rightarrow> map_of (frontend_data_store st) uid \<noteq> None
      | Some r \<Rightarrow> map_of (keyspace r) uid \<noteq> None)"

text \<open>
  The key text under which the active backend looks an identifier up, when the lookup
  gets as far as the store at all.
\<close>

definition lookup_key :: "state \<Rightarrow> pyval \<Rightarrow> string option" where
  "lookup_key st v =
     (case redis_client st of
        None \<Rightarrow> (case v of PStr s \<Rightarrow> Some s | _ \<Rightarrow> None)
      | Some r \<Rightarrow> (case redis_encode r v of Inl e \<Rightarrow> None | Inr k \<Rightarrow> Some k))"

definition staged_under :: "state \<Rightarrow> pyval \<Rightarrow> bool" where
  "staged_under st v = (case lookup_key st v of None \<Rightarrow> False | Some k \<Rightarrow> staged st k)"

text \<open>The number of entries the active backend holds under \<open>uid\<close>.\<close>

definition records_for :: "state \<Rightarrow> string \<Rightarrow> nat" where
  "records_for st uid =
     (case redis_client st of
        None \<Rightarrow> length (filter (\<lambda>e. fst e = uid) (frontend_data_store st))
      | Some r \<Rightarrow> length (filter (\<lambda>e. fst e = uid) (keyspace r)))"

text \<open>
  An association list stands for a dict when its keys are distinct; both stores are
  dicts.
\<close>

definition wf_state :: "state \<Rightarrow> bool" where
  "wf_state st =
     (distinct (map fst (frontend_data_store st)) \<and>
      (case redis_client st of None \<Rightarrow> True | Some r \<Rightarrow> distinct (map fst (keyspace r))))"

section \<open>Example inputs\<close>

definition initial_memory :: state where
  "initial_memory = \<lparr>redis_client = None, frontend_data_store = []\<rparr>"

definition example_redis :: "bool \<Rightarrow> Redis" where
  "example_redis up = \<lparr>reachable = up, keyspace = [], float_repr = (\<lambda>x. ''0.0'')\<rparr>"

definition initial_redis :: state where
  "initial_redis = \<lparr>redis_client = Some (example_redis True), frontend_data_store = []\<rparr>"

definition redis_down :: state where
  "redis_down = \<lparr>redis_client = Some (example_redis False), frontend_data_store = []\<rparr>"

definition example_data :: "string \<Rightarrow> string \<Rightarrow> string \<Rightarrow> string option \<Rightarrow> FrontendData" where
  "example_data uid bu di cd =
     \<lparr>user_id = uid, business_unit = bu, device_info = di, custom_data = cd, timestamp = 0\<rparr>"

definition example_event :: "pydict \<Rightarrow> TokenIssuanceEvent" where
  "example_event u =
     \<lparr>event_type = ''microsoft.graph.authenticationEvent.tokenIssuanceStart'',
      data = \<lparr>authenticationContext =
        \<lparr>user = u, correlationId = ''c-1'', client = [], protocol = ''OAUTH2.0'',
         clientServicePrincipal = [], resourceServicePrincipal = []\<rparr>\<rparr>\<rparr>"

definition bearer :: HTTPAuthorizationCredentials where
  "bearer = \<lparr>scheme = ''Bearer'', credentials = ''token''\<rparr>"

text \<open>A reading of the clock, and the fallback store after one staging at that instant.\<close>

definition epoch :: rat where
  "epoch = 1700000000"

definition staged_u1 :: state where
  "staged_u1 = snd (store_frontend_data (example_data ''u1'' ''Finance'' ''iPhone15'' None)
                      epoch epoch initial_memory)"

section \<open>Unfolding the handlers\<close>

lemmas handler_defs =
  custom_claims_provider_def custom_claims_provider_try_def
  store_frontend_data_def store_frontend_data_try_def store_data_def store_data_try_def
  get_data_def get_data_try_def delete_data_def delete_data_try_def
  redis_setex_def redis_get_def redis_delete_def json_dumps_def

lemmas claims_defs =
  base_claims_def frontend_claims_def default_claims_def dict_update_def storage_type_def
  data_to_store_def dict_get_default_def response_def

lemmas example_defs =
  initial_memory_def initial_redis_def redis_down_def example_redis_def example_data_def
  example_event_def bearer_def user_id_of_def py_or_def dict_get_def

section \<open>Auxiliary lemmas\<close>

lemma stage_then_consume_memory:
  assumes "redis_client st = None" "user_id_of event = PStr (user_id fd)" "t_get - t_put \<le> 300"
  shows "custom_claims_provider event creds t_get utcnow t_age t_dflt
            (snd (store_frontend_data fd t_req t_put st)) =
         (Inr (response (base_claims event utcnow st @
            [(''businessUnit'', PStr (business_unit fd)),
             (''deviceInfo'', PStr (device_info fd)),
             (''customData'', optional_str (custom_data fd)),
             (''dataSource'', PStr ''frontend''),
             (''dataAge'', PFloat (t_age - t_req))])),
          st\<lparr>frontend_data_store := AList.delete (user_id fd) (frontend_data_store st)\<rparr>)"
  using assms
  by (simp add: handler_defs claims_defs update_conv' delete_update_same)

lemma stage_then_consume_redis:
  assumes "redis_client st = Some r" "reachable r" "user_id_of event = PStr (user_id fd)" "t_get - t_put \<le> 300"
  shows "custom_claims_provider event creds t_get utcnow t_age t_dflt
            (snd (store_frontend_data fd t_req t_put st)) =
         (Inr (response (base_claims event utcnow st @
            [(''businessUnit'', PStr (business_unit fd)),
             (''deviceInfo'', PStr (device_info fd)),
             (''customData'', optional_str (custom_data fd)),
             (''dataSource'', PStr ''frontend''),
             (''dataAge'', PFloat (t_age - t_req))])),
          st\<lparr>redis_client := Some (r\<lparr>keyspace := AList.delete (user_id fd) (keyspace r)\<rparr>)\<rparr>)"
  using assms
  by (simp add: handler_defs claims_defs update_conv' delete_update_same)

lemma get_data_absent:
  assumes "\<not> staged_under st key"
  shows "get_data key now st = (Inr None, st)"
  using assms
  by (cases key; cases "redis_client st")
     (auto simp: staged_under_def lookup_key_def staged_def handler_defs split: option.splits sum.splits)

lemma consume_absent:
  assumes "get_data (user_id_of event) t_get st = (Inr None, st)"
  shows "custom_claims_provider event creds t_get utcnow t_age t_dflt st =
           (Inr (response (base_claims event utcnow st @ default_claims)), st)"
  using assms
  by (simp add: custom_claims_provider_def custom_claims_provider_try_def claims_defs)

lemma storage_type_frontend_data_store [simp]:
  "storage_type (st\<lparr>frontend_data_store := s\<rparr>) = storage_type st"
  by (simp add: storage_type_def)

lemma storage_type_redis_client [simp]:
  "storage_type (st\<lparr>redis_client := Some r\<rparr>) = PStr ''redis''"
  by (simp add: storage_type_def)

lemma staged_under_PStr: "staged_under st (PStr k) = staged st k"
  by (simp add: staged_under_def lookup_key_def split: option.splits)

lemma except_return_Inr: "\<exists>x. fst (except_return p v) = Inr x"
  by (cases "(p, v)" rule: except_return.cases) simp_all

lemma except_return_caught: "isl (fst p) \<Longrightarrow> fst (except_return p v) = Inr v"
  by (cases "(p, v)" rule: except_return.cases) simp_all

lemma except_return_snd: "snd (except_return p v) = snd p"
  by (cases "(p, v)" rule: except_return.cases) simp_all

lemma get_data_try_storage_type:
  "storage_type (snd (get_data_try key now st)) = storage_type st"
  by (cases key; cases "redis_client st")
     (auto simp: get_data_try_def storage_type_def split: option.splits sum.splits)

lemma delete_data_try_storage_type:
  "storage_type (snd (delete_data_try key st)) = storage_type st"
  by (cases key; cases "redis_client st")
     (auto simp: delete_data_try_def storage_type_def split: option.splits sum.splits)

lemma get_data_result:
  obtains v st1 where "get_data key now st = (Inr v, st1)" and "storage_type st1 = storage_type st"
proof -
  obtain v where "fst (get_data key now st) = Inr v"
    using except_return_Inr [of "get_data_try key now st" None] by (auto simp: get_data_def)
  moreover have "storage_type (snd (get_data key now st)) = storage_type st"
    by (simp add: get_data_def except_return_snd get_data_try_storage_type)
  ultimately show thesis
    using that [of v "snd (get_data key now st)"] by (metis prod.collapse)
qed

lemma delete_data_result:
  obtains b st2 where "delete_data key st = (Inr b, st2)" and "storage_type st2 = storage_type st"
proof -
  obtain b where "fst (delete_data key st) = Inr b"
    using except_return_Inr [of "delete_data_try key st" False] by (auto simp: delete_data_def)
  moreover have "storage_type (snd (delete_data key st)) = storage_type st"
    by (simp add: delete_data_def except_return_snd delete_data_try_storage_type)
  ultimately show thesis
    using that [of b "snd (delete_data key st)"] by (metis prod.collapse)
qed

lemma dict_update_base_default:
  "dict_update (base_claims event utcnow st) default_claims =
     base_claims event utcnow st @ default_claims"
  by (simp add: dict_update_def base_claims_def default_claims_def)

lemma dict_update_base_frontend:
  "dict_update (base_claims event utcnow st) (frontend_claims stored age) =
     base_claims event utcnow st @ frontend_claims stored age"
  by (simp add: dict_update_def base_claims_def frontend_claims_def)

lemma consume_after_stage:
  assumes up: "backend_up st"
    and uid: "user_id_of event = PStr (user_id fd)"
    and fresh: "t_get - t_put \<le> 300"
  shows "\<exists>st2.
      custom_claims_provider event creds t_get utcnow t_age t_dflt
          (snd (store_frontend_data fd t_req t_put st)) =
        (Inr (response (base_claims event utcnow st @
           [(''businessUnit'', PStr (business_unit fd)),
            (''deviceInfo'', PStr (device_info fd)),
            (''customData'', optional_str (custom_data fd)),
            (''dataSource'', PStr ''frontend''),
            (''dataAge'', PFloat (t_age - t_req))])), st2)
      \<and> \<not> staged st2 (user_id fd) \<and> storage_type st2 = storage_type st"
proof (cases "redis_client st")
  case None
  then show ?thesis
    using stage_then_consume_memory [OF None uid fresh]
    by (simp add: staged_def delete_conv')
next
  case (Some r)
  from up Some have reach: "reachable r" by (simp add: backend_up_def)
  show ?thesis
    using stage_then_consume_redis [OF Some reach uid fresh] Some
    by (simp add: staged_def delete_conv' storage_type_def)
qed

lemma stage_twice:
  assumes "user_id fd_a = user_id fd_b"
  shows "store_frontend_data fd_b t_req_b t_put_b (snd (store_frontend_data fd_a t_req_a t_put_a st)) =
         store_frontend_data fd_b t_req_b t_put_b st"
  using assms
  by (cases "redis_client st")
     (auto simp: handler_defs storage_type_def split: if_splits)

lemma count_after_update:
  "distinct (map fst al) \<Longrightarrow> length (filter (\<lambda>e. fst e = k) (AList.update k v al)) = 1"
proof (induction al)
  case Nil
  then show ?case by simp
next
  case (Cons p al)
  have "k \<notin> fst ` set al \<Longrightarrow> filter (\<lambda>e. fst e = k) al = []"
    by (auto simp: filter_empty_conv)
  with Cons show ?case by (cases "fst p = k") auto
qed

lemma records_after_stage:
  assumes "backend_up st" and "wf_state st"
  shows "records_for (snd (store_frontend_data fd t_req t_put st)) (user_id fd) = 1"
  using assms
  by (cases "redis_client st")
     (auto simp: handler_defs records_for_def wf_state_def backend_up_def count_after_update)

lemma get_after_stage:
  assumes up: "backend_up st" and fresh: "t_get - t_put \<le> 300"
  shows "\<exists>d st1. get_data (PStr (user_id fd)) t_get (snd (store_frontend_data fd t_req t_put st)) =
            (Inr (Some d), st1)
          \<and> dict_get d ''business_unit'' = PStr (business_unit fd)
          \<and> dict_get d ''device_info'' = PStr (device_info fd)
          \<and> dict_get d ''custom_data'' = optional_str (custom_data fd)
          \<and> dict_get d ''timestamp'' = PFloat t_req"
  using assms
  by (cases "redis_client st")
     (auto simp: handler_defs claims_defs backend_up_def update_conv' dict_get_def)

lemma staged_under_falsy:
  assumes "\<not> truthy v" and "staged_under st v"
  shows "v = PStr [] \<or> (redis_client st \<noteq> None \<and> (v = PInt 0 \<or> v = PFloat 0))"
  using assms
  by (cases v; cases "redis_client st")
     (auto simp: staged_under_def lookup_key_def split: option.splits sum.splits)

lemma staged_u1_eq:
  "staged_u1 = \<lparr>redis_client = None, frontend_data_store =
      [(''u1'', [(''business_unit'', PStr ''Finance''), (''device_info'', PStr ''iPhone15''),
                 (''custom_data'', PNone), (''timestamp'', PFloat epoch),
                 (''_timestamp'', PFloat epoch)])]\<rparr>"
  by (simp add: staged_u1_def example_defs handler_defs claims_defs)

section \<open>The claims\<close>

text \<open>
  Claim C1, as amended. Staging data for a user and then issuing claims for that user,
  less than 300 seconds later and with the backend answering, returns exactly the staged
  \<open>businessUnit\<close>, \<open>deviceInfo\<close> and \<open>customData\<close> next to the fixed fields, with
  \<open>dataSource = frontend\<close> and \<open>dataAge\<close> the clock read at issuance minus the clock
  read while staging. The difference is not clamped: it is non-negative exactly when the
  clock did not run backwards between the two reads. The record is deleted by that call:
  in the state it leaves, nothing is staged for the user, a lookup at any later instant
  returns \<open>None\<close>, and a second issuance returns the default claims.
\<close>

theorem stage_then_consume_once:
  assumes up: "backend_up st"
    and uid: "user_id_of event = PStr (user_id fd)"
    and fresh: "t_get - t_put < 300"
  shows "\<exists>st2.
      custom_claims_provider event creds t_get utcnow t_age t_dflt
          (snd (store_frontend_data fd t_req t_put st)) =
        (Inr (response (base_claims event utcnow st @
           [(''businessUnit'', PStr (business_unit fd)),
            (''deviceInfo'', PStr (device_info fd)),
            (''customData'', optional_str (custom_data fd)),
            (''dataSource'', PStr ''frontend''),
            (''dataAge'', PFloat (t_age - t_req))])), st2)
      \<and> (0 \<le> t_age - t_req \<longleftrightarrow> t_req \<le> t_age)
      \<and> \<not> staged st2 (user_id fd)
      \<and> get_data (PStr (user_id fd)) t_get' st2 = (Inr None, st2)
      \<and> custom_claims_provider event creds' t_get' utcnow' t_age' t_dflt' st2 =
        (Inr (response (base_claims event utcnow' st @ default_claims)), st2)"
proof (cases "redis_client st")
  case None
  let ?st2 = "st\<lparr>frontend_data_store := AList.delete (user_id fd) (frontend_data_store st)\<rparr>"
  have first: "custom_claims_provider event creds t_get utcnow t_age t_dflt
          (snd (store_frontend_data fd t_req t_put st)) =
        (Inr (response (base_claims event utcnow st @
           [(''businessUnit'', PStr (business_unit fd)),
            (''deviceInfo'', PStr (device_info fd)),
            (''customData'', optional_str (custom_data fd)),
            (''dataSource'', PStr ''frontend''),
            (''dataAge'', PFloat (t_age - t_req))])), ?st2)"
    using None uid fresh by (intro stage_then_consume_memory) simp_all
  have gone: "\<not> staged ?st2 (user_id fd)"
    using None by (simp add: staged_def delete_conv')
  then have absent: "get_data (PStr (user_id fd)) t_get' ?st2 = (Inr None, ?st2)"
    by (intro get_data_absent) (simp add: staged_under_PStr)
  then have "custom_claims_provider event creds' t_get' utcnow' t_age' t_dflt' ?st2 =
        (Inr (response (base_claims event utcnow' ?st2 @ default_claims)), ?st2)"
    by (intro consume_absent) (simp add: uid)
  then have second: "custom_claims_provider event creds' t_get' utcnow' t_age' t_dflt' ?st2 =
        (Inr (response (base_claims event utcnow' st @ default_claims)), ?st2)"
    by (simp add: base_claims_def)
  from first gone absent second show ?thesis by auto
next
  case (Some r)
  let ?st2 = "st\<lparr>redis_client := Some (r\<lparr>keyspace := AList.delete (user_id fd) (keyspace r)\<rparr>)\<rparr>"
  from up Some have reach: "reachable r" by (simp add: backend_up_def)
  have same: "storage_type ?st2 = storage_type st"
    using Some by (simp add: storage_type_def)
  have first: "custom_claims_provider event creds t_get utcnow t_age t_dflt
          (snd (store_frontend_data fd t_req t_put st)) =
        (Inr (response (base_claims event utcnow st @
           [(''businessUnit'', PStr (business_unit fd)),
            (''deviceInfo'', PStr (device_info fd)),
            (''customData'', optional_str (custom_data fd)),
            (''dataSource'', PStr ''frontend''),
            (''dataAge'', PFloat (t_age - t_req))])), ?st2)"
    using Some reach uid fresh by (intro stage_then_consume_redis) simp_all
  have gone: "\<not> staged ?st2 (user_id fd)"
    by (simp add: staged_def delete_conv')
  then have absent: "get_data (PStr (user_id fd)) t_get' ?st2 = (Inr None, ?st2)"
    by (intro get_data_absent) (simp add: staged_under_PStr)
  then have "custom_claims_provider event creds' t_get' utcnow' t_age' t_dflt' ?st2 =
        (Inr (response (base_claims event utcnow' ?st2 @ default_claims)), ?st2)"
    by (intro consume_absent) (simp add: uid)
  then have second: "custom_claims_provider event creds' t_get' utcnow' t_age' t_dflt' ?st2 =
        (Inr (response (base_claims event utcnow' st @ default_claims)), ?st2)"
    using same by (simp add: base_claims_def)
  from first gone absent second show ?thesis by auto
qed

text \<open>The theorem at a concrete input.\<close>

theorem stage_then_consume_once_witness:
  "backend_up initial_redis
   \<and> user_id_of (example_event [(''userPrincipalName'', PStr ''u1'')]) =
       PStr (user_id (example_data ''u1'' ''Finance'' ''iPhone15'' (Some ''blue'')))
   \<and> (epoch + 299) - epoch < 300
   \<and> fst (custom_claims_provider (example_event [(''userPrincipalName'', PStr ''u1'')]) bearer
          (epoch + 299) ''2023-11-14T22:18:19'' (epoch + 299) (epoch + 299)
          (snd (store_frontend_data (example_data ''u1'' ''Finance'' ''iPhone15'' (Some ''blue''))
                  epoch epoch initial_redis))) =
       Inr (response (base_claims (example_event [(''userPrincipalName'', PStr ''u1'')])
                        ''2023-11-14T22:18:19'' initial_redis @
         [(''businessUnit'', PStr ''Finance''),
          (''deviceInfo'', PStr ''iPhone15''),
          (''customData'', PStr ''blue''),
          (''dataSource'', PStr ''frontend''),
          (''dataAge'', PFloat 299)]))
   \<and> fst (custom_claims_provider (example_event [(''userPrincipalName'', PStr ''u1'')]) bearer
          (epoch + 299) ''2023-11-14T22:18:19'' (epoch + 299) (epoch + 299)
          (snd (custom_claims_provider (example_event [(''userPrincipalName'', PStr ''u1'')]) bearer
            (epoch + 299) ''2023-11-14T22:18:19'' (epoch + 299) (epoch + 299)
            (snd (store_frontend_data (example_data ''u1'' ''Finance'' ''iPhone15'' (Some ''blue''))
                  epoch epoch initial_redis))))) =
       Inr (response (base_claims (example_event [(''userPrincipalName'', PStr ''u1'')])
                        ''2023-11-14T22:18:19'' initial_redis @ default_claims))"
proof -
  have up: "backend_up initial_redis"
    by (simp add: backend_up_def example_defs)
  have uid: "user_id_of (example_event [(''userPrincipalName'', PStr ''u1'')]) =
       PStr (user_id (example_data ''u1'' ''Finance'' ''iPhone15'' (Some ''blue'')))"
    by (simp add: example_defs)
  have fresh: "(epoch + 299) - epoch < 300" by simp
  from stage_then_consume_once [OF up uid fresh, where creds = bearer
      and t_req = epoch and t_age = "epoch + 299"
      and utcnow = "''2023-11-14T22:18:19''" and t_dflt = "epoch + 299" and t_get' = "epoch + 299"
      and creds' = bearer and utcnow' = "''2023-11-14T22:18:19''" and t_age' = "epoch + 299"
      and t_dflt' = "epoch + 299"]
  obtain st2 where
    first: "custom_claims_provider (example_event [(''userPrincipalName'', PStr ''u1'')]) bearer
          (epoch + 299) ''2023-11-14T22:18:19'' (epoch + 299) (epoch + 299)
          (snd (store_frontend_data (example_data ''u1'' ''Finance'' ''iPhone15'' (Some ''blue''))
                  epoch epoch initial_redis)) =
       (Inr (response (base_claims (example_event [(''userPrincipalName'', PStr ''u1'')])
                        ''2023-11-14T22:18:19'' initial_redis @
         [(''businessUnit'', PStr ''Finance''),
          (''deviceInfo'', PStr ''iPhone15''),
          (''customData'', PStr ''blue''),
          (''dataSource'', PStr ''frontend''),
          (''dataAge'', PFloat 299)])), st2)"
    and second: "custom_claims_provider (example_event [(''userPrincipalName'', PStr ''u1'')]) bearer
          (epoch + 299) ''2023-11-14T22:18:19'' (epoch + 299) (epoch + 299) st2 =
       (Inr (response (base_claims (example_event [(''userPrincipalName'', PStr ''u1'')])
                        ''2023-11-14T22:18:19'' initial_redis @ default_claims)), st2)"
    by (auto simp: example_data_def)
  from first second up uid fresh show ?thesis by simp
qed

text \<open>
  The claim as stated fails when the wall clock is set back between the two requests:
  \<open>time.time()\<close> reads \<open>epoch\<close> while staging and \<open>epoch - 5\<close> at issuance, and the
  response carries \<open>dataAge = -5\<close>.
\<close>

theorem clock_set_back_gives_negative_data_age:
  "backend_up initial_memory
   \<and> user_id_of (example_event [(''userPrincipalName'', PStr ''u1'')]) =
       PStr (user_id (example_data ''u1'' ''Finance'' ''iPhone15'' (Some ''blue'')))
   \<and> (epoch - 5) - epoch < 300
   \<and> fst (custom_claims_provider (example_event [(''userPrincipalName'', PStr ''u1'')]) bearer
          (epoch - 5) ''2023-11-14T22:13:15'' (epoch - 5) (epoch - 5)
          (snd (store_frontend_data (example_data ''u1'' ''Finance'' ''iPhone15'' (Some ''blue''))
                  epoch epoch initial_memory))) =
       Inr (response (base_claims (example_event [(''userPrincipalName'', PStr ''u1'')])
                        ''2023-11-14T22:13:15'' initial_memory @
         [(''businessUnit'', PStr ''Finance''),
          (''deviceInfo'', PStr ''iPhone15''),
          (''customData'', PStr ''blue''),
          (''dataSource'', PStr ''frontend''),
          (''dataAge'', PFloat (- 5))]))
   \<and> \<not> (0::rat) \<le> - 5"
  by (simp add: example_defs handler_defs claims_defs epoch_def backend_up_def)

text \<open>
  Claim C2. For a user identifier under which the active backend holds no entry, the
  lookup returns \<open>None\<close> and leaves the state as it was, and the handler answers with the
  protocol envelope whose claims are the five fixed fields followed by
  \<open>businessUnit = Default\<close>, \<open>deviceInfo = Server-Generated\<close>,
  \<open>customData = No frontend data available\<close> and \<open>dataSource = default\<close>; there is no
  \<open>dataAge\<close> entry.
\<close>

theorem unstaged_user_gets_default_claims:
  assumes "\<not> staged st uid" and "user_id_of event = PStr uid"
  shows "get_data (PStr uid) t_get st = (Inr None, st) \<and>
     custom_claims_provider event creds t_get utcnow t_age t_dflt st =
       (Inr (PDict [(''data'', PDict [(''actions'', PList [PDict
          [(''@odata.type'', PStr ''microsoft.graph.tokenIssuanceStart.provideClaimsForToken''),
           (''claims'', PDict
              [(''apiVersion'', PStr ''1.0.0''),
               (''correlationId'', PStr (correlationId (authenticationContext (data event)))),
               (''timestamp'', PStr utcnow),
               (''source'', PStr ''custom-claims-provider''),
               (''storage_type'', storage_type st),
               (''businessUnit'', PStr ''Default''),
               (''deviceInfo'', PStr ''Server-Generated''),
               (''customData'', PStr ''No frontend data available''),
               (''dataSource'', PStr ''default'')])]])])]), st)"
proof -
  from assms(1) have absent: "get_data (PStr uid) t_get st = (Inr None, st)"
    by (intro get_data_absent) (simp add: staged_under_PStr)
  then have "custom_claims_provider event creds t_get utcnow t_age t_dflt st =
      (Inr (response (base_claims event utcnow st @ default_claims)), st)"
    by (intro consume_absent) (simp add: assms(2))
  with absent show ?thesis
    by (simp add: response_def base_claims_def default_claims_def)
qed

text \<open>The theorem at a concrete input.\<close>

theorem unstaged_user_gets_default_claims_witness:
  "\<not> staged initial_memory ''u2''
   \<and> user_id_of (example_event [(''id'', PStr ''u2'')]) = PStr ''u2''
   \<and> custom_claims_provider (example_event [(''id'', PStr ''u2'')]) bearer
        epoch ''2023-11-14T22:13:20'' epoch epoch initial_memory =
       (Inr (PDict [(''data'', PDict [(''actions'', PList [PDict
          [(''@odata.type'', PStr ''microsoft.graph.tokenIssuanceStart.provideClaimsForToken''),
           (''claims'', PDict
              [(''apiVersion'', PStr ''1.0.0''),
               (''correlationId'', PStr ''c-1''),
               (''timestamp'', PStr ''2023-11-14T22:13:20''),
               (''source'', PStr ''custom-claims-provider''),
               (''storage_type'', PStr ''memory''),
               (''businessUnit'', PStr ''Default''),
               (''deviceInfo'', PStr ''Server-Generated''),
               (''customData'', PStr ''No frontend data available''),
               (''dataSource'', PStr ''default'')])]])])]), initial_memory)"
proof -
  have absent: "\<not> staged initial_memory ''u2''"
    by (simp add: staged_def initial_memory_def)
  have uid: "user_id_of (example_event [(''id'', PStr ''u2'')]) = PStr ''u2''"
    by (simp add: example_defs)
  from unstaged_user_gets_default_claims [OF absent uid, of epoch bearer "''2023-11-14T22:13:20''" epoch epoch]
  show ?thesis using absent uid
    by (simp add: example_event_def storage_type_def initial_memory_def)
qed

text \<open>
  Claim C3. In the fallback store, an entry whose \<open>_timestamp\<close> lies more than 300
  seconds before the clock read by \<open>get_data\<close> is reported as \<open>None\<close> and is removed
  from the dict by that very call; the entries under every other key are left as they
  were, so the cleanup is per lookup and not a sweep.
\<close>

theorem fallback_get_removes_expired_entry:
  assumes "redis_client st = None"
    and "map_of (frontend_data_store st) key = Some d"
    and "map_of d ''_timestamp'' = Some (PFloat created)"
    and "now - created > 300"
  shows "get_data (PStr key) now st =
           (Inr None, st\<lparr>frontend_data_store := AList.delete key (frontend_data_store st)\<rparr>)
     \<and> map_of (frontend_data_store (snd (get_data (PStr key) now st))) key = None
     \<and> (\<forall>k. k \<noteq> key \<longrightarrow>
            map_of (frontend_data_store (snd (get_data (PStr key) now st))) k =
            map_of (frontend_data_store st) k)"
proof -
  from assms(3) have "d \<noteq> []" by auto
  with assms have "get_data (PStr key) now st =
           (Inr None, st\<lparr>frontend_data_store := AList.delete key (frontend_data_store st)\<rparr>)"
    by (simp add: get_data_def get_data_try_def dict_get_default_def)
  then show ?thesis by (simp add: delete_conv')
qed

text \<open>The theorem at a concrete input.\<close>

theorem fallback_get_removes_expired_entry_witness:
  "redis_client staged_u1 = None
   \<and> map_of (frontend_data_store staged_u1) ''u1'' =
       Some [(''business_unit'', PStr ''Finance''), (''device_info'', PStr ''iPhone15''),
             (''custom_data'', PNone), (''timestamp'', PFloat epoch),
             (''_timestamp'', PFloat epoch)]
   \<and> (epoch + 301) - epoch > 300
   \<and> get_data (PStr ''u1'') (epoch + 301) staged_u1 = (Inr None, initial_memory)"
proof -
  let ?d = "[(''business_unit'', PStr ''Finance''), (''device_info'', PStr ''iPhone15''),
             (''custom_data'', PNone), (''timestamp'', PFloat epoch),
             (''_timestamp'', PFloat epoch)]"
  have mem: "redis_client staged_u1 = None" by (simp add: staged_u1_eq)
  have entry: "map_of (frontend_data_store staged_u1) ''u1'' = Some ?d"
    by (simp add: staged_u1_eq)
  have created: "map_of ?d ''_timestamp'' = Some (PFloat epoch)" by simp
  have old: "(epoch + 301) - epoch > 300" by simp
  from fallback_get_removes_expired_entry [OF mem entry created old]
  have "get_data (PStr ''u1'') (epoch + 301) staged_u1 = (Inr None, initial_memory)"
    by (simp add: staged_u1_eq initial_memory_def)
  with mem entry old show ?thesis by simp
qed

text \<open>
  Claim C4, evaluated. Staging \<open>u1\<close> with \<open>business_unit = Finance\<close>,
  \<open>device_info = iPhone15\<close> and no \<open>custom_data\<close> in the fallback store, and issuing
  claims for \<open>userPrincipalName = u1\<close> half a second later, gives \<open>businessUnit\<close>,
  \<open>deviceInfo\<close>, \<open>dataSource = frontend\<close> and \<open>dataAge = 1/2\<close> as expected, but
  \<open>customData\<close> is \<open>None\<close>, not the empty string: the staged dict always has the key
  \<open>custom_data\<close>, so the default of \<open>stored_data.get("custom_data", "")\<close> is never used.
\<close>

theorem null_custom_data_is_emitted_as_null:
  "fst (custom_claims_provider (example_event [(''userPrincipalName'', PStr ''u1'')]) bearer
          (epoch + 1 / 2) ''2023-11-14T22:13:20.5'' (epoch + 1 / 2) (epoch + 1 / 2)
          (snd (store_frontend_data (example_data ''u1'' ''Finance'' ''iPhone15'' None)
                  epoch epoch initial_memory))) =
     Inr (response
       [(''apiVersion'', PStr ''1.0.0''),
        (''correlationId'', PStr ''c-1''),
        (''timestamp'', PStr ''2023-11-14T22:13:20.5''),
        (''source'', PStr ''custom-claims-provider''),
        (''storage_type'', PStr ''memory''),
        (''businessUnit'', PStr ''Finance''),
        (''deviceInfo'', PStr ''iPhone15''),
        (''customData'', PNone),
        (''dataSource'', PStr ''frontend''),
        (''dataAge'', PFloat (1 / 2))])
   \<and> PNone \<noteq> PStr []"
  by (simp add: example_defs handler_defs claims_defs epoch_def)

text \<open>
  Claim C5. \<open>store_data\<close>, \<open>get_data\<close> and \<open>delete_data\<close> never raise: for every key,
  value, clock reading and state each of them returns a value. \<open>store_data\<close> returns
  \<open>True\<close> exactly when the active backend answers; whenever the guarded body of an
  operation raises, \<open>store_data\<close> and \<open>delete_data\<close> return \<open>False\<close> and \<open>get_data\<close>
  returns \<open>None\<close>.
\<close>

theorem store_operations_never_raise:
  "fst (store_data key d expiration now st) = Inr (backend_up st)
   \<and> (\<exists>v. fst (get_data k now st) = Inr v)
   \<and> (\<exists>b. fst (delete_data k st) = Inr b)
   \<and> (isl (fst (store_data_try key d expiration now st))
        \<longrightarrow> fst (store_data key d expiration now st) = Inr False)
   \<and> (isl (fst (get_data_try k now st)) \<longrightarrow> fst (get_data k now st) = Inr None)
   \<and> (isl (fst (delete_data_try k st)) \<longrightarrow> fst (delete_data k st) = Inr False)"
proof -
  have put: "fst (store_data key d expiration now st) = Inr (backend_up st)"
    by (cases "redis_client st")
       (simp_all add: store_data_def store_data_try_def redis_setex_def backend_up_def)
  have rest: "(\<exists>v. fst (get_data k now st) = Inr v)
      \<and> (\<exists>b. fst (delete_data k st) = Inr b)
      \<and> (isl (fst (store_data_try key d expiration now st))
           \<longrightarrow> fst (store_data key d expiration now st) = Inr False)
      \<and> (isl (fst (get_data_try k now st)) \<longrightarrow> fst (get_data k now st) = Inr None)
      \<and> (isl (fst (delete_data_try k st)) \<longrightarrow> fst (delete_data k st) = Inr False)"
    unfolding store_data_def get_data_def delete_data_def
    by (intro conjI impI except_return_Inr except_return_caught)
  from put rest show ?thesis by (rule conjI)
qed

text \<open>The theorem at a concrete input.\<close>

theorem store_operations_never_raise_witness:
  "isl (fst (store_data_try ''u1'' [] 300 epoch redis_down))
   \<and> store_data ''u1'' [] 300 epoch redis_down = (Inr False, redis_down)
   \<and> isl (fst (get_data_try (PList []) epoch initial_memory))
   \<and> get_data (PList []) epoch initial_memory = (Inr None, initial_memory)
   \<and> isl (fst (delete_data_try (PDict []) initial_memory))
   \<and> delete_data (PDict []) initial_memory = (Inr False, initial_memory)
   \<and> fst (get_data (PStr ''u1'') epoch redis_down) = Inr None
   \<and> fst (delete_data (PStr ''u1'') redis_down) = Inr False"
  using store_operations_never_raise [of "''u1''" "[]" 300 epoch redis_down "PStr ''u1''"]
    store_operations_never_raise [of "''u1''" "[]" 300 epoch initial_memory "PList []"]
    store_operations_never_raise [of "''u1''" "[]" 300 epoch initial_memory "PDict []"]
  by (simp add: example_defs handler_defs)

text \<open>
  Claim C6. Staging twice for the same user overwrites: the state and the answer after
  the second call are those of staging the second record alone, the active backend holds
  exactly one entry for the user, and a following issuance (less than 300 seconds after
  the second write) returns the fields of the second record only.
\<close>

theorem second_stage_overwrites_first:
  assumes up: "backend_up st" and wf: "wf_state st"
    and same: "user_id fd_a = user_id fd_b"
    and uid: "user_id_of event = PStr (user_id fd_b)"
    and fresh: "t_get - t_put_b < 300"
  shows "store_frontend_data fd_b t_req_b t_put_b (snd (store_frontend_data fd_a t_req_a t_put_a st)) =
           store_frontend_data fd_b t_req_b t_put_b st
     \<and> records_for (snd (store_frontend_data fd_b t_req_b t_put_b
           (snd (store_frontend_data fd_a t_req_a t_put_a st)))) (user_id fd_b) = 1
     \<and> fst (custom_claims_provider event creds t_get utcnow t_age t_dflt
           (snd (store_frontend_data fd_b t_req_b t_put_b
              (snd (store_frontend_data fd_a t_req_a t_put_a st))))) =
         Inr (response (base_claims event utcnow st @
           [(''businessUnit'', PStr (business_unit fd_b)),
            (''deviceInfo'', PStr (device_info fd_b)),
            (''customData'', optional_str (custom_data fd_b)),
            (''dataSource'', PStr ''frontend''),
            (''dataAge'', PFloat (t_age - t_req_b))]))"
proof -
  have over: "store_frontend_data fd_b t_req_b t_put_b (snd (store_frontend_data fd_a t_req_a t_put_a st)) =
           store_frontend_data fd_b t_req_b t_put_b st"
    by (rule stage_twice [OF same])
  have one: "records_for (snd (store_frontend_data fd_b t_req_b t_put_b st)) (user_id fd_b) = 1"
    by (rule records_after_stage [OF up wf])
  from fresh have "t_get - t_put_b \<le> 300" by simp
  from consume_after_stage [OF up uid this, of creds utcnow t_age t_dflt t_req_b]
  have "fst (custom_claims_provider event creds t_get utcnow t_age t_dflt
           (snd (store_frontend_data fd_b t_req_b t_put_b st))) =
         Inr (response (base_claims event utcnow st @
           [(''businessUnit'', PStr (business_unit fd_b)),
            (''deviceInfo'', PStr (device_info fd_b)),
            (''customData'', optional_str (custom_data fd_b)),
            (''dataSource'', PStr ''frontend''),
            (''dataAge'', PFloat (t_age - t_req_b))]))"
    by auto
  with over one show ?thesis by simp
qed

text \<open>The theorem at a concrete input.\<close>

theorem second_stage_overwrites_first_witness:
  "backend_up initial_memory \<and> wf_state initial_memory
   \<and> user_id (example_data ''u1'' ''Finance'' ''iPhone15'' None) =
       user_id (example_data ''u1'' ''Sales'' ''Pixel8'' (Some ''green''))
   \<and> user_id_of (example_event [(''userPrincipalName'', PStr ''u1'')]) =
       PStr (user_id (example_data ''u1'' ''Sales'' ''Pixel8'' (Some ''green'')))
   \<and> (epoch + 20) - (epoch + 10) < 300
   \<and> records_for (snd (store_frontend_data (example_data ''u1'' ''Sales'' ''Pixel8'' (Some ''green''))
          (epoch + 10) (epoch + 10)
          (snd (store_frontend_data (example_data ''u1'' ''Finance'' ''iPhone15'' None)
             epoch epoch initial_memory)))) ''u1'' = 1
   \<and> fst (custom_claims_provider (example_event [(''userPrincipalName'', PStr ''u1'')]) bearer
          (epoch + 20) ''2023-11-14T22:13:40'' (epoch + 20) (epoch + 20)
          (snd (store_frontend_data (example_data ''u1'' ''Sales'' ''Pixel8'' (Some ''green''))
             (epoch + 10) (epoch + 10)
             (snd (store_frontend_data (example_data ''u1'' ''Finance'' ''iPhone15'' None)
                epoch epoch initial_memory))))) =
       Inr (response (base_claims (example_event [(''userPrincipalName'', PStr ''u1'')])
                        ''2023-11-14T22:13:40'' initial_memory @
         [(''businessUnit'', PStr ''Sales''),
          (''deviceInfo'', PStr ''Pixel8''),
          (''customData'', PStr ''green''),
          (''dataSource'', PStr ''frontend''),
          (''dataAge'', PFloat 10)]))"
proof -
  have up: "backend_up initial_memory" by (simp add: backend_up_def initial_memory_def)
  have wf: "wf_state initial_memory" by (simp add: wf_state_def initial_memory_def)
  have same: "user_id (example_data ''u1'' ''Finance'' ''iPhone15'' None) =
       user_id (example_data ''u1'' ''Sales'' ''Pixel8'' (Some ''green''))"
    by (simp add: example_data_def)
  have uid: "user_id_of (example_event [(''userPrincipalName'', PStr ''u1'')]) =
       PStr (user_id (example_data ''u1'' ''Sales'' ''Pixel8'' (Some ''green'')))"
    by (simp add: example_defs)
  have fresh: "(epoch + 20) - (epoch + 10) < 300" by simp
  from second_stage_overwrites_first [OF up wf same uid fresh, where t_req_b = "epoch + 10"
      and t_req_a = epoch and t_put_a = epoch and creds = bearer
      and utcnow = "''2023-11-14T22:13:40''" and t_age = "epoch + 20" and t_dflt = "epoch + 20",
      THEN conjunct2]
  show ?thesis using up wf same uid fresh by (simp add: example_data_def)
qed

text \<open>
  Claim C7. Every response the claims handler returns without raising is the protocol
  envelope: a \<open>data\<close> object whose \<open>actions\<close> list has one action, carrying the fixed
  \<open>@odata.type\<close> and a \<open>claims\<close> dict. The claims hold \<open>apiVersion\<close>,
  \<open>correlationId\<close> (the request's), \<open>timestamp\<close>, \<open>source\<close> and \<open>storage_type\<close>,
  followed either by the default fields or by the fields read from a staged record.
\<close>

theorem issue_claims_response_envelope:
  assumes ok: "fst (custom_claims_provider event creds t_get utcnow t_age t_dflt st) = Inr resp"
  shows "\<exists>claims.
       resp = PDict [(''data'', PDict [(''actions'', PList [PDict
          [(''@odata.type'', PStr ''microsoft.graph.tokenIssuanceStart.provideClaimsForToken''),
           (''claims'', PDict claims)]])])]
     \<and> map_of claims ''apiVersion'' = Some (PStr ''1.0.0'')
     \<and> map_of claims ''correlationId'' =
          Some (PStr (correlationId (authenticationContext (data event))))
     \<and> map_of claims ''timestamp'' = Some (PStr utcnow)
     \<and> map_of claims ''source'' = Some (PStr ''custom-claims-provider'')
     \<and> map_of claims ''storage_type'' = Some (storage_type st)
     \<and> (claims = base_claims event utcnow st @ default_claims
          \<or> (\<exists>stored age. claims = base_claims event utcnow st @ frontend_claims stored age))"
proof -
  obtain v st1 where g: "get_data (user_id_of event) t_get st = (Inr v, st1)"
    and same: "storage_type st1 = storage_type st"
    by (rule get_data_result)
  obtain b st2 where del: "delete_data (user_id_of event) st1 = (Inr b, st2)"
    by (rule delete_data_result)
  have base: "base_claims event utcnow st1 = base_claims event utcnow st"
    using same by (simp add: base_claims_def)
  have "resp = response (base_claims event utcnow st @ default_claims)
      \<or> (\<exists>stored age. resp = response (base_claims event utcnow st @ frontend_claims stored age))"
    using ok g del base
    by (auto simp: custom_claims_provider_def custom_claims_provider_try_def
          dict_update_base_default dict_update_base_frontend Let_def
        split: option.splits sum.splits if_splits)
  then show ?thesis
  proof (elim disjE exE)
    assume "resp = response (base_claims event utcnow st @ default_claims)"
    then show ?thesis
      by (intro exI [of _ "base_claims event utcnow st @ default_claims"])
         (simp add: response_def base_claims_def)
  next
    fix stored age
    assume "resp = response (base_claims event utcnow st @ frontend_claims stored age)"
    then show ?thesis
      by (intro exI [of _ "base_claims event utcnow st @ frontend_claims stored age"])
         (auto simp: response_def base_claims_def)
  qed
qed

text \<open>The theorem at a concrete input.\<close>

theorem issue_claims_response_envelope_witness:
  "fst (custom_claims_provider (example_event [(''id'', PStr ''u2'')]) bearer
        epoch ''2023-11-14T22:13:20'' epoch epoch initial_redis) =
     Inr (response (base_claims (example_event [(''id'', PStr ''u2'')])
                      ''2023-11-14T22:13:20'' initial_redis @ default_claims))
   \<and> map_of (base_claims (example_event [(''id'', PStr ''u2'')])
                ''2023-11-14T22:13:20'' initial_redis @ default_claims) ''correlationId'' =
       Some (PStr ''c-1'')
   \<and> map_of (base_claims (example_event [(''id'', PStr ''u2'')])
                ''2023-11-14T22:13:20'' initial_redis @ default_claims) ''storage_type'' =
       Some (PStr ''redis'')"
proof -
  have ok: "fst (custom_claims_provider (example_event [(''id'', PStr ''u2'')]) bearer
        epoch ''2023-11-14T22:13:20'' epoch epoch initial_redis) =
     Inr (response (base_claims (example_event [(''id'', PStr ''u2'')])
                      ''2023-11-14T22:13:20'' initial_redis @ default_claims))"
    by (simp add: example_defs handler_defs claims_defs)
  from issue_claims_response_envelope [OF ok]
  show ?thesis using ok
    by (auto simp: response_def example_event_def storage_type_def initial_redis_def)
qed

text \<open>
  Claim C8. The expiry test of the fallback store is strict: an entry whose age is 300
  seconds or less is returned by \<open>get_data\<close>, the state unchanged, and \<open>get_data\<close>
  returns \<open>None\<close> for a stored entry exactly when its age exceeds 300 seconds.
\<close>

theorem fallback_expiry_is_strict:
  assumes "redis_client st = None"
    and "map_of (frontend_data_store st) key = Some d"
    and "map_of d ''_timestamp'' = Some (PFloat created)"
  shows "(now - created \<le> 300 \<longrightarrow> get_data (PStr key) now st = (Inr (Some d), st))
     \<and> (fst (get_data (PStr key) now st) = Inr None \<longleftrightarrow> now - created > 300)"
proof -
  from assms(3) have "d \<noteq> []" by auto
  with assms show ?thesis
    by (simp add: get_data_def get_data_try_def dict_get_default_def)
qed

text \<open>The theorem at a concrete input.\<close>

theorem fallback_expiry_is_strict_witness:
  "redis_client staged_u1 = None
   \<and> map_of (frontend_data_store staged_u1) ''u1'' =
       Some [(''business_unit'', PStr ''Finance''), (''device_info'', PStr ''iPhone15''),
             (''custom_data'', PNone), (''timestamp'', PFloat epoch),
             (''_timestamp'', PFloat epoch)]
   \<and> (epoch + 300) - epoch \<le> 300
   \<and> get_data (PStr ''u1'') (epoch + 300) staged_u1 =
       (Inr (Some [(''business_unit'', PStr ''Finance''), (''device_info'', PStr ''iPhone15''),
             (''custom_data'', PNone), (''timestamp'', PFloat epoch),
             (''_timestamp'', PFloat epoch)]), staged_u1)
   \<and> fst (get_data (PStr ''u1'') (epoch + 300) staged_u1) \<noteq> Inr None"
proof -
  let ?d = "[(''business_unit'', PStr ''Finance''), (''device_info'', PStr ''iPhone15''),
             (''custom_data'', PNone), (''timestamp'', PFloat epoch),
             (''_timestamp'', PFloat epoch)]"
  have mem: "redis_client staged_u1 = None" by (simp add: staged_u1_eq)
  have entry: "map_of (frontend_data_store staged_u1) ''u1'' = Some ?d"
    by (simp add: staged_u1_eq)
  have created: "map_of ?d ''_timestamp'' = Some (PFloat epoch)" by simp
  have age: "(epoch + 300) - epoch \<le> 300" by simp
  from fallback_expiry_is_strict [OF mem entry created, of "epoch + 300"] age
  have "get_data (PStr ''u1'') (epoch + 300) staged_u1 = (Inr (Some ?d), staged_u1)"
    and "fst (get_data (PStr ''u1'') (epoch + 300) staged_u1) \<noteq> Inr None"
    by simp_all
  with mem entry age show ?thesis by simp
qed

text \<open>
  Claim C9. The \<open>timestamp\<close> field of the store request has no effect: two requests that
  differ in it alone give the same answer and the same state. The \<open>timestamp\<close> of the
  staged record is the clock read by the handler, and the \<open>dataAge\<close> of a following
  issuance is measured from that reading.
\<close>

theorem client_timestamp_is_ignored:
  "store_frontend_data (fd\<lparr>timestamp := c_a\<rparr>) t_req t_put st =
     store_frontend_data (fd\<lparr>timestamp := c_b\<rparr>) t_req t_put st
   \<and> (backend_up st \<and> t_get - t_put < 300 \<longrightarrow>
        (\<exists>d st1. get_data (PStr (user_id fd)) t_get
                    (snd (store_frontend_data (fd\<lparr>timestamp := c_a\<rparr>) t_req t_put st)) =
                  (Inr (Some d), st1)
              \<and> dict_get d ''timestamp'' = PFloat t_req))
   \<and> (backend_up st \<and> t_get - t_put < 300 \<and> user_id_of event = PStr (user_id fd) \<longrightarrow>
        (\<exists>claims st2. custom_claims_provider event creds t_get utcnow t_age t_dflt
                    (snd (store_frontend_data (fd\<lparr>timestamp := c_a\<rparr>) t_req t_put st)) =
                  (Inr (response claims), st2)
              \<and> dict_get claims ''dataAge'' = PFloat (t_age - t_req)))"
proof (intro conjI impI)
  show "store_frontend_data (fd\<lparr>timestamp := c_a\<rparr>) t_req t_put st =
     store_frontend_data (fd\<lparr>timestamp := c_b\<rparr>) t_req t_put st"
    by (simp add: store_frontend_data_def store_frontend_data_try_def data_to_store_def
          split: prod.splits sum.splits)
next
  assume "backend_up st \<and> t_get - t_put < 300"
  then have "backend_up st" "t_get - t_put \<le> 300" by simp_all
  from get_after_stage [OF this, of "fd\<lparr>timestamp := c_a\<rparr>" t_req]
  show "\<exists>d st1. get_data (PStr (user_id fd)) t_get
                    (snd (store_frontend_data (fd\<lparr>timestamp := c_a\<rparr>) t_req t_put st)) =
                  (Inr (Some d), st1)
              \<and> dict_get d ''timestamp'' = PFloat t_req"
    by auto
next
  assume "backend_up st \<and> t_get - t_put < 300 \<and> user_id_of event = PStr (user_id fd)"
  then have a: "backend_up st" "user_id_of event = PStr (user_id (fd\<lparr>timestamp := c_a\<rparr>))"
    "t_get - t_put \<le> 300" by simp_all
  from consume_after_stage [OF a, of creds utcnow t_age t_dflt t_req]
  obtain st2 where "custom_claims_provider event creds t_get utcnow t_age t_dflt
                    (snd (store_frontend_data (fd\<lparr>timestamp := c_a\<rparr>) t_req t_put st)) =
        (Inr (response (base_claims event utcnow st @
           [(''businessUnit'', PStr (business_unit fd)),
            (''deviceInfo'', PStr (device_info fd)),
            (''customData'', optional_str (custom_data fd)),
            (''dataSource'', PStr ''frontend''),
            (''dataAge'', PFloat (t_age - t_req))])), st2)"
    by auto
  then show "\<exists>claims st2. custom_claims_provider event creds t_get utcnow t_age t_dflt
                    (snd (store_frontend_data (fd\<lparr>timestamp := c_a\<rparr>) t_req t_put st)) =
                  (Inr (response claims), st2)
              \<and> dict_get claims ''dataAge'' = PFloat (t_age - t_req)"
    by (auto simp: dict_get_def base_claims_def)
qed

text \<open>The theorem at a concrete input.\<close>

theorem client_timestamp_is_ignored_witness:
  "store_frontend_data ((example_data ''u1'' ''Finance'' ''iPhone15'' None)\<lparr>timestamp := 0\<rparr>)
       epoch epoch initial_redis =
     store_frontend_data ((example_data ''u1'' ''Finance'' ''iPhone15'' None)\<lparr>timestamp := 9999999999\<rparr>)
       epoch epoch initial_redis
   \<and> backend_up initial_redis \<and> (epoch + 5) - epoch < 300
   \<and> user_id_of (example_event [(''userPrincipalName'', PStr ''u1'')]) =
       PStr (user_id (example_data ''u1'' ''Finance'' ''iPhone15'' None))
   \<and> (\<exists>claims st2. custom_claims_provider (example_event [(''userPrincipalName'', PStr ''u1'')])
           bearer (epoch + 5) ''2023-11-14T22:13:25'' (epoch + 5) (epoch + 5)
           (snd (store_frontend_data
              ((example_data ''u1'' ''Finance'' ''iPhone15'' None)\<lparr>timestamp := 0\<rparr>)
              epoch epoch initial_redis)) = (Inr (response claims), st2)
         \<and> dict_get claims ''dataAge'' = PFloat 5)"
proof -
  have up: "backend_up initial_redis" by (simp add: backend_up_def example_defs)
  have fresh: "(epoch + 5) - epoch < 300" by simp
  have uid: "user_id_of (example_event [(''userPrincipalName'', PStr ''u1'')]) =
       PStr (user_id (example_data ''u1'' ''Finance'' ''iPhone15'' None))"
    by (simp add: example_defs)
  note ignored = client_timestamp_is_ignored
      [where fd = "example_data ''u1'' ''Finance'' ''iPhone15'' None"
      and c_a = 0 and c_b = 9999999999 and t_req = epoch and t_put = epoch and st = initial_redis
      and t_get = "epoch + 5" and t_age = "epoch + 5" and t_dflt = "epoch + 5" and creds = bearer
      and utcnow = "''2023-11-14T22:13:25''"
      and event = "example_event [(''userPrincipalName'', PStr ''u1'')]"]
  from ignored have same: "store_frontend_data
        ((example_data ''u1'' ''Finance'' ''iPhone15'' None)\<lparr>timestamp := 0\<rparr>)
        epoch epoch initial_redis =
      store_frontend_data
        ((example_data ''u1'' ''Finance'' ''iPhone15'' None)\<lparr>timestamp := 9999999999\<rparr>)
        epoch epoch initial_redis"
    by (rule conjunct1)
  from ignored up fresh uid
  have "\<exists>claims st2. custom_claims_provider (example_event [(''userPrincipalName'', PStr ''u1'')])
           bearer (epoch + 5) ''2023-11-14T22:13:25'' (epoch + 5) (epoch + 5)
           (snd (store_frontend_data
              ((example_data ''u1'' ''Finance'' ''iPhone15'' None)\<lparr>timestamp := 0\<rparr>)
              epoch epoch initial_redis)) = (Inr (response claims), st2)
         \<and> dict_get claims ''dataAge'' = PFloat (epoch + 5 - epoch)"
    by blast
  then have age: "\<exists>claims st2. custom_claims_provider (example_event [(''userPrincipalName'', PStr ''u1'')])
           bearer (epoch + 5) ''2023-11-14T22:13:25'' (epoch + 5) (epoch + 5)
           (snd (store_frontend_data
              ((example_data ''u1'' ''Finance'' ''iPhone15'' None)\<lparr>timestamp := 0\<rparr>)
              epoch epoch initial_redis)) = (Inr (response claims), st2)
         \<and> dict_get claims ''dataAge'' = PFloat 5"
    by simp
  from same up fresh uid age show ?thesis by blast
qed

text \<open>
  Claim C10, as amended. When \<open>authenticationContext.user\<close> has neither a truthy
  \<open>userPrincipalName\<close> nor a truthy \<open>id\<close>, the handler does not reject the request: it
  goes on with the value of \<open>id\<close> as the user identifier (\<open>None\<close> when \<open>id\<close> is absent
  or null). When that identifier is \<open>None\<close>, and more generally whenever no entry is
  staged under the key it denotes, the default-claims response is returned and the state
  is unchanged. Only the empty string (and, with Redis, a zero, sent as its text) denotes
  a key under which an entry can be staged.
\<close>

theorem falsy_identifier_is_looked_up:
  assumes "\<not> truthy (dict_get (user (authenticationContext (data event))) ''userPrincipalName'')"
    and "\<not> truthy (dict_get (user (authenticationContext (data event))) ''id'')"
  shows "user_id_of event = dict_get (user (authenticationContext (data event))) ''id''
     \<and> (user_id_of event = PNone \<longrightarrow>
          custom_claims_provider event creds t_get utcnow t_age t_dflt st =
            (Inr (response (base_claims event utcnow st @ default_claims)), st))
     \<and> (\<not> staged_under st (user_id_of event) \<longrightarrow>
          custom_claims_provider event creds t_get utcnow t_age t_dflt st =
            (Inr (response (base_claims event utcnow st @ default_claims)), st))
     \<and> (staged_under st (user_id_of event) \<longrightarrow>
          user_id_of event = PStr [] \<or>
          (redis_client st \<noteq> None \<and> (user_id_of event = PInt 0 \<or> user_id_of event = PFloat 0)))"
proof -
  have id: "user_id_of event = dict_get (user (authenticationContext (data event))) ''id''"
    using assms(1) by (simp add: user_id_of_def py_or_def)
  have absent: "custom_claims_provider event creds t_get utcnow t_age t_dflt st =
            (Inr (response (base_claims event utcnow st @ default_claims)), st)"
    if "\<not> staged_under st (user_id_of event)"
    using that by (intro consume_absent get_data_absent)
  have none: "\<not> staged_under st PNone"
    by (simp add: staged_under_def lookup_key_def split: option.splits)
  have falsy: "\<not> truthy (user_id_of event)"
    using assms(2) id by simp
  show ?thesis
    using id absent none staged_under_falsy [OF falsy] by auto
qed

text \<open>The theorem at a concrete input.\<close>

theorem falsy_identifier_is_looked_up_witness:
  "\<not> truthy (dict_get (user (authenticationContext (data (example_event [(''id'', PNone)]))))
        ''userPrincipalName'')
   \<and> \<not> truthy (dict_get (user (authenticationContext (data (example_event [(''id'', PNone)]))))
        ''id'')
   \<and> user_id_of (example_event [(''id'', PNone)]) = PNone
   \<and> custom_claims_provider (example_event [(''id'', PNone)]) bearer
        (epoch + 1) ''2023-11-14T22:13:21'' (epoch + 1) (epoch + 1) staged_u1 =
       (Inr (response (base_claims (example_event [(''id'', PNone)]) ''2023-11-14T22:13:21''
                         staged_u1 @ default_claims)), staged_u1)"
proof -
  have upn: "\<not> truthy (dict_get (user (authenticationContext (data (example_event [(''id'', PNone)]))))
        ''userPrincipalName'')"
    by (simp add: example_defs)
  have ident: "\<not> truthy (dict_get (user (authenticationContext (data (example_event [(''id'', PNone)]))))
        ''id'')"
    by (simp add: example_defs)
  have null: "user_id_of (example_event [(''id'', PNone)]) = PNone"
    by (simp add: example_defs)
  from falsy_identifier_is_looked_up [OF upn ident, where st = staged_u1 and creds = bearer
      and t_get = "epoch + 1" and utcnow = "''2023-11-14T22:13:21''" and t_age = "epoch + 1"
      and t_dflt = "epoch + 1"]
  show ?thesis using upn ident null by simp
qed

text \<open>
  The claim as stated fails for the empty string: it is falsy, it is a valid \<open>user_id\<close>
  of the store request, and it is not \<open>None\<close>. After staging under \<open>user_id = ""\<close>, an
  issuance whose user mapping is \<open>{"id": ""}\<close> finds the record and returns the staged
  fields, not the default claims.
\<close>

theorem empty_identifier_finds_staged_record:
  "\<not> truthy (dict_get (user (authenticationContext (data (example_event [(''id'', PStr [])]))))
        ''userPrincipalName'')
   \<and> \<not> truthy (dict_get (user (authenticationContext (data (example_event [(''id'', PStr [])]))))
        ''id'')
   \<and> user_id_of (example_event [(''id'', PStr [])]) \<noteq> PNone
   \<and> fst (custom_claims_provider (example_event [(''id'', PStr [])]) bearer
          (epoch + 1) ''2023-11-14T22:13:21'' (epoch + 1) (epoch + 1)
          (snd (store_frontend_data (example_data [] ''Finance'' ''iPhone15'' None)
                  epoch epoch initial_memory))) =
       Inr (response (base_claims (example_event [(''id'', PStr [])]) ''2023-11-14T22:13:21''
                        initial_memory @
         [(''businessUnit'', PStr ''Finance''),
          (''deviceInfo'', PStr ''iPhone15''),
          (''customData'', PNone),
          (''dataSource'', PStr ''frontend''),
          (''dataAge'', PFloat 1)]))
   \<and> fst (custom_claims_provider (example_event [(''id'', PStr [])]) bearer
          (epoch + 1) ''2023-11-14T22:13:21'' (epoch + 1) (epoch + 1)
          (snd (store_frontend_data (example_data [] ''Finance'' ''iPhone15'' None)
                  epoch epoch initial_memory))) \<noteq>
       Inr (response (base_claims (example_event [(''id'', PStr [])]) ''2023-11-14T22:13:21''
                        initial_memory @ default_claims))"
  by (simp add: example_defs handler_defs claims_defs epoch_def)

end
